theory Spec2Isabelle
  imports Main "HOL-Library.Word" "HOL-Library.Sublist"
begin

section \<open>The safety-partition skeleton: rtos\_partition/template.c\<close>

text \<open>
  The translation unit defines two functions, \<^verbatim>\<open>SafetyTask\<close> and \<^verbatim>\<open>main\<close>.
  Everything either of them does is a call of an external function of the RTOS kernel
  (\<^verbatim>\<open>vTaskDelay\<close>, \<^verbatim>\<open>xTaskCreate\<close>, \<^verbatim>\<open>vTaskStartScheduler\<close>); neither has a
  local variable, reads a global or branches on data. The embedding threads a world
  through the two functions; the world records, in order, every external call made.
\<close>

subsection \<open>Values passed to the kernel\<close>

text \<open>A \<^verbatim>\<open>void *\<close> (or a task handle pointer): \<^verbatim>\<open>NULL\<close> or some address.\<close>

datatype ptr = NULL | Addr nat

text \<open>
  An argument of an external call. \<open>'tick\<close> stands for \<^verbatim>\<open>TickType_t\<close>, whose width is
  fixed by the kernel configuration (FreeRTOSConfig.h), which is not part of the source.
\<close>

datatype 'tick val =
    PtrV ptr
  | FunPtr string
  | StrLit string
  | IntV int
  | TickV 'tick

datatype 'tick call = Call (callee: string) (args: "'tick val list")

subsection \<open>The world\<close>

text \<open>
  The comment in the task body speaks of commands, of a queue they are read from and of
  unsigned commands that are not to be accepted. The world carries these objects, so that
  what the code does to them (nothing) can be stated: the queue of pending commands, the
  commands accepted (acted upon) so far, and the commands discarded and logged so far.
\<close>

record command =
  opcode :: nat
  is_signed :: bool

record 'tick world =
  calls :: "'tick call list"
  stdout :: string
  queue :: "command list"
  accepted :: "command list"
  discard_log :: "command list"

subsection \<open>The kernel the program is linked against\<close>

text \<open>
  What the source takes from \<^verbatim>\<open>FreeRTOS.h\<close> and \<^verbatim>\<open>task.h\<close> and does not define:
  the macro \<^verbatim>\<open>pdMS_TO_TICKS\<close> (a pure expression of its argument and of configuration
  constants), the \<^verbatim>\<open>BaseType_t\<close> that \<^verbatim>\<open>xTaskCreate\<close> returns (\<^verbatim>\<open>pdPASS\<close> or an error
  code), and whether \<^verbatim>\<open>vTaskStartScheduler\<close> ever returns to its caller (it does so only
  when the kernel could not start, or was stopped). All three are parameters.
\<close>

record 'tick rtos =
  pdMS_TO_TICKS :: "int \<Rightarrow> 'tick"
  xTaskCreate_result :: int
  scheduler_returns :: bool

definition extern_call :: "string \<Rightarrow> 'tick val list \<Rightarrow> 'tick world \<Rightarrow> 'tick world" where
  "extern_call f as w = w\<lparr>calls := calls w @ [Call f as]\<rparr>"

text \<open>\<^verbatim>\<open>void vTaskDelay(const TickType_t xTicksToDelay)\<close>: returns after the delay.\<close>

definition vTaskDelay :: "'tick \<Rightarrow> 'tick world \<Rightarrow> 'tick world" where
  "vTaskDelay xTicksToDelay w = extern_call ''vTaskDelay'' [TickV xTicksToDelay] w"

text \<open>
  \<^verbatim>\<open>BaseType_t xTaskCreate(pxTaskCode, pcName, usStackDepth, pvParameters, uxPriority,
  pxCreatedTask)\<close>: returns the kernel's verdict together with the new world.
\<close>

definition xTaskCreate ::
  "'tick rtos \<Rightarrow> string \<Rightarrow> string \<Rightarrow> int \<Rightarrow> ptr \<Rightarrow> int \<Rightarrow> ptr \<Rightarrow> 'tick world \<Rightarrow> int \<times> 'tick world" where
  "xTaskCreate rt pxTaskCode pcName usStackDepth pvParameters uxPriority pxCreatedTask w =
     (xTaskCreate_result rt,
      extern_call ''xTaskCreate''
        [FunPtr pxTaskCode, StrLit pcName, IntV usStackDepth, PtrV pvParameters,
         IntV uxPriority, PtrV pxCreatedTask] w)"

text \<open>
  \<^verbatim>\<open>void vTaskStartScheduler(void)\<close>: the flag tells whether the call returned; when it
  is \<open>False\<close> the caller stays inside the call for ever.
\<close>

definition vTaskStartScheduler :: "'tick rtos \<Rightarrow> 'tick world \<Rightarrow> bool \<times> 'tick world" where
  "vTaskStartScheduler rt w = (scheduler_returns rt, extern_call ''vTaskStartScheduler'' [] w)"

subsection \<open>SafetyTask\<close>

text \<open>
  \<^verbatim>\<open>
  void SafetyTask(void *pvParameters) {
      for (;;) {
          // read commands from queue; do not accept unsigned commands
          vTaskDelay(pdMS_TO_TICKS(1000));
      }
  }
  \<close>
  The loop has no exit, so the function is run with fuel: the number of iterations to
  perform. The result is the world reached and, as \<open>Some ()\<close>, that the function has
  returned; \<open>None\<close> says that it is still inside the loop.
\<close>

fun SafetyTask :: "'tick rtos \<Rightarrow> nat \<Rightarrow> ptr \<Rightarrow> 'tick world \<Rightarrow> 'tick world \<times> unit option" where
  "SafetyTask rt 0 pvParameters w = (w, None)"
| "SafetyTask rt (Suc fuel) pvParameters w =
     SafetyTask rt fuel pvParameters (vTaskDelay (pdMS_TO_TICKS rt 1000) w)"

subsection \<open>main\<close>

text \<open>\<^verbatim>\<open>while (1) {}\<close>, with fuel as above: the body is empty and there is no exit.\<close>

fun while_1 :: "nat \<Rightarrow> 'tick world \<Rightarrow> 'tick world \<times> unit option" where
  "while_1 0 w = (w, None)"
| "while_1 (Suc fuel) w = while_1 fuel w"

text \<open>
  \<^verbatim>\<open>
  int main(void) {
      xTaskCreate(SafetyTask, "SafetyTask", 1024, NULL, 5, NULL);
      vTaskStartScheduler();
      while (1) {}
      return 0;
  }
  \<close>
  The result is the world reached and, as \<open>Some r\<close>, the value returned; \<open>None\<close> says
  that \<^verbatim>\<open>main\<close> has not returned: it is inside the scheduler call, or inside the loop.
\<close>

definition main :: "'tick rtos \<Rightarrow> nat \<Rightarrow> 'tick world \<Rightarrow> 'tick world \<times> int option" where
  "main rt fuel w =
     (let (_, w1) = xTaskCreate rt ''SafetyTask'' ''SafetyTask'' 1024 NULL 5 NULL w;
          (returned, w2) = vTaskStartScheduler rt w1
      in if \<not> returned then (w2, None)
         else (case while_1 fuel w2 of
                 (w3, None) \<Rightarrow> (w3, None)
               | (w3, Some _) \<Rightarrow> (w3, Some 0)))"

subsection \<open>Observations\<close>

text \<open>The calls made between two worlds of one run, oldest first.\<close>

definition emitted :: "'tick world \<Rightarrow> 'tick world \<Rightarrow> 'tick call list" where
  "emitted w w' = drop (length (calls w)) (calls w')"

text \<open>The one call of the task body.\<close>

definition delay_call :: "'tick rtos \<Rightarrow> 'tick call" where
  "delay_call rt = Call ''vTaskDelay'' [TickV (pdMS_TO_TICKS rt 1000)]"

subsection \<open>Kinds of primitive\<close>

text \<open>
  The kinds of primitive that the claims about the program speak of, and the functions
  of the kernel interface and of the C library that belong to each kind. The table is
  the vocabulary in which the absence of a kind of call is stated; it is not part of the
  source. No kernel or library function validates a command: that kind has no entry, and
  a call of it would be a call of a function outside the table.
\<close>

datatype primitive_kind =
    Delay
  | TaskCreation
  | SchedulerStart
  | QueueOperation
  | CommandValidation
  | InterTaskCommunication
  | Locking
  | Cancellation
  | ErrorHandling
  | StdioFunction

definition api_kinds :: "(string \<times> primitive_kind) list" where
  "api_kinds =
     [(''vTaskDelay'', Delay), (''vTaskDelayUntil'', Delay), (''xTaskDelayUntil'', Delay),
      (''xTaskCreate'', TaskCreation), (''xTaskCreateStatic'', TaskCreation),
      (''vTaskStartScheduler'', SchedulerStart),
      (''xQueueCreate'', QueueOperation), (''xQueueSend'', QueueOperation),
      (''xQueueSendToBack'', QueueOperation), (''xQueueSendToFront'', QueueOperation),
      (''xQueueReceive'', QueueOperation), (''xQueuePeek'', QueueOperation),
      (''uxQueueMessagesWaiting'', QueueOperation), (''xQueueReset'', QueueOperation),
      (''vQueueDelete'', QueueOperation),
      (''xTaskNotify'', InterTaskCommunication), (''xTaskNotifyGive'', InterTaskCommunication),
      (''ulTaskNotifyTake'', InterTaskCommunication), (''xTaskNotifyWait'', InterTaskCommunication),
      (''xEventGroupSetBits'', InterTaskCommunication),
      (''xEventGroupWaitBits'', InterTaskCommunication),
      (''xStreamBufferSend'', InterTaskCommunication),
      (''xStreamBufferReceive'', InterTaskCommunication),
      (''xMessageBufferSend'', InterTaskCommunication),
      (''xMessageBufferReceive'', InterTaskCommunication),
      (''xSemaphoreCreateMutex'', Locking), (''xSemaphoreTake'', Locking),
      (''xSemaphoreGive'', Locking), (''taskENTER_CRITICAL'', Locking),
      (''taskEXIT_CRITICAL'', Locking), (''vTaskSuspendAll'', Locking),
      (''xTaskResumeAll'', Locking),
      (''vTaskDelete'', Cancellation), (''vTaskSuspend'', Cancellation),
      (''xTaskAbortDelay'', Cancellation), (''vTaskEndScheduler'', Cancellation),
      (''configASSERT'', ErrorHandling), (''abort'', ErrorHandling), (''exit'', ErrorHandling),
      (''printf'', StdioFunction), (''fprintf'', StdioFunction), (''puts'', StdioFunction),
      (''fputs'', StdioFunction), (''putchar'', StdioFunction), (''putc'', StdioFunction),
      (''fputc'', StdioFunction), (''fwrite'', StdioFunction), (''perror'', StdioFunction),
      (''fflush'', StdioFunction), (''scanf'', StdioFunction), (''getchar'', StdioFunction),
      (''fgets'', StdioFunction), (''fread'', StdioFunction), (''fopen'', StdioFunction),
      (''fclose'', StdioFunction)]"

definition primitive_kind :: "string \<Rightarrow> primitive_kind option" where
  "primitive_kind f = map_of api_kinds f"

subsection \<open>The command validator of the specification\<close>

text \<open>
  This definition follows the words of the specification, not the source: a task that
  dequeues the incoming commands, validates each one (an unsigned command is rejected),
  executes the validated ones and discards and logs the rest. It is what one run of such
  a task over the pending commands would leave behind.
\<close>

definition spec_command_validator :: "'tick world \<Rightarrow> 'tick world" where
  "spec_command_validator w =
     w\<lparr>queue := [],
       accepted := accepted w @ filter is_signed (queue w),
       discard_log := discard_log w @ filter (\<lambda>c. \<not> is_signed c) (queue w)\<rparr>"

text \<open>The part of a world that command handling is about.\<close>

definition command_state :: "'tick world \<Rightarrow> command list \<times> command list \<times> command list" where
  "command_state w = (queue w, accepted w, discard_log w)"

subsection \<open>An example port and example worlds\<close>

text \<open>
  A port with a 32-bit tick count and a tick rate of 1 kHz (one tick per millisecond),
  on which task creation succeeds and the scheduler keeps running; a world at boot in
  which one signed and one unsigned command are pending; and the same world later on,
  when one signed command has been accepted already.
\<close>

definition port_1kHz :: "32 word rtos" where
  "port_1kHz = \<lparr>pdMS_TO_TICKS = word_of_int, xTaskCreate_result = 1, scheduler_returns = False\<rparr>"

definition boot_world :: "32 word world" where
  "boot_world =
     \<lparr>calls = [], stdout = [],
      queue = [\<lparr>opcode = 1, is_signed = True\<rparr>, \<lparr>opcode = 2, is_signed = False\<rparr>],
      accepted = [], discard_log = []\<rparr>"

definition later_world :: "32 word world" where
  "later_world = boot_world\<lparr>accepted := [\<lparr>opcode = 0, is_signed = True\<rparr>]\<rparr>"

section \<open>Basic facts\<close>

text \<open>The world after \<open>n\<close> iterations of the task: \<open>n\<close> delay calls more, nothing else.\<close>

lemma SafetyTask_world:
  "fst (SafetyTask rt n pv w) = w\<lparr>calls := calls w @ replicate n (delay_call rt)\<rparr>"
proof (induction n arbitrary: w)
  case 0
  show ?case by simp
next
  case (Suc n)
  show ?case
    by (simp add: Suc.IH vTaskDelay_def extern_call_def delay_call_def replicate_app_Cons_same)
qed

lemma SafetyTask_running: "snd (SafetyTask rt n pv w) = None"
  by (induction n arbitrary: w) simp_all

lemma emitted_SafetyTask:
  "emitted w (fst (SafetyTask rt n pv w)) = replicate n (delay_call rt)"
  by (simp add: emitted_def SafetyTask_world)

lemma while_1_result: "while_1 n w = (w, None)"
  by (induction n) simp_all

lemma main_world:
  "fst (main rt fuel w) =
     w\<lparr>calls := calls w @
        [Call ''xTaskCreate''
           [FunPtr ''SafetyTask'', StrLit ''SafetyTask'', IntV 1024, PtrV NULL, IntV 5, PtrV NULL],
         Call ''vTaskStartScheduler'' []]\<rparr>"
  by (simp add: main_def xTaskCreate_def vTaskStartScheduler_def extern_call_def while_1_result)

lemma main_running: "snd (main rt fuel w) = None"
  by (simp add: main_def xTaskCreate_def vTaskStartScheduler_def while_1_result)

lemma emitted_main:
  "emitted w (fst (main rt fuel w)) =
     [Call ''xTaskCreate''
        [FunPtr ''SafetyTask'', StrLit ''SafetyTask'', IntV 1024, PtrV NULL, IntV 5, PtrV NULL],
      Call ''vTaskStartScheduler'' []]"
  by (simp add: emitted_def main_world)

lemma kind_vTaskDelay: "primitive_kind ''vTaskDelay'' = Some Delay"
  by (simp add: primitive_kind_def api_kinds_def)

lemma kind_xTaskCreate: "primitive_kind ''xTaskCreate'' = Some TaskCreation"
  by (simp add: primitive_kind_def api_kinds_def)

lemma kind_vTaskStartScheduler: "primitive_kind ''vTaskStartScheduler'' = Some SchedulerStart"
  by (simp add: primitive_kind_def api_kinds_def)

lemmas kind_simps = kind_vTaskDelay kind_xTaskCreate kind_vTaskStartScheduler

section \<open>The claims\<close>

subsection \<open>C1: no unsigned command is accepted\<close>

text \<open>
  C1. In every execution of \<^verbatim>\<open>SafetyTask\<close> no unsigned command is ever accepted. The task
  accepts no command at all: after any number of iterations the accepted commands are
  those accepted before the task ran, whatever is pending in the queue. So if every
  command accepted before was signed, every command accepted at any later point is.
\<close>

theorem SafetyTask_accepts_no_unsigned_command:
  "(\<forall>c \<in> set (accepted w). is_signed c) \<Longrightarrow>
     accepted (fst (SafetyTask rt n pv w)) = accepted w \<and>
     (\<forall>c \<in> set (accepted (fst (SafetyTask rt n pv w))). is_signed c)"
  by (simp add: SafetyTask_world)

text \<open>
  The theorem at a world in which a signed command has been accepted and an unsigned
  command is pending: after two iterations the unsigned one has not been accepted.
\<close>

theorem SafetyTask_accepts_no_unsigned_command_witness:
  "list_all is_signed (accepted later_world) \<and>
   queue later_world ! 1 = \<lparr>opcode = 2, is_signed = False\<rparr> \<and>
   accepted (fst (SafetyTask port_1kHz 2 (Addr 7) later_world)) =
     [\<lparr>opcode = 0, is_signed = True\<rparr>] \<and>
   list_all is_signed (accepted (fst (SafetyTask port_1kHz 2 (Addr 7) later_world)))"
proof -
  have pre: "\<forall>c \<in> set (accepted later_world). is_signed c"
    by (simp add: later_world_def)
  have acc: "accepted later_world = [\<lparr>opcode = 0, is_signed = True\<rparr>]"
    by (simp add: later_world_def)
  have q: "queue later_world ! 1 = \<lparr>opcode = 2, is_signed = False\<rparr>"
    by (simp add: later_world_def boot_world_def)
  from SafetyTask_accepts_no_unsigned_command [OF pre, of port_1kHz 2 "Addr 7"]
  show ?thesis
    using acc q by (simp add: list_all_iff)
qed

subsection \<open>C2: the task is one unconditional loop\<close>

text \<open>
  C2. \<^verbatim>\<open>SafetyTask\<close> is an infinite loop without branches whose only action per iteration
  is a single delay call. It never returns: whatever the number of iterations performed,
  the task is still inside its loop. Every iteration behaves identically: from any world,
  one more iteration is exactly one more call \<^verbatim>\<open>vTaskDelay(pdMS_TO_TICKS(1000))\<close>, so the
  calls of \<open>n\<close> iterations are \<open>n\<close> copies of that call.
\<close>

theorem SafetyTask_never_returns:
  "snd (SafetyTask rt n pv w) = None \<and>
   fst (SafetyTask rt (Suc n) pv w) =
     vTaskDelay (pdMS_TO_TICKS rt 1000) (fst (SafetyTask rt n pv w)) \<and>
   emitted w (fst (SafetyTask rt n pv w)) = replicate n (delay_call rt)"
  by (simp add: SafetyTask_running SafetyTask_world emitted_def vTaskDelay_def extern_call_def
      delay_call_def replicate_append_same)

subsection \<open>C3: no queue, validation, communication, locking, cancellation or error handling\<close>

text \<open>
  C3. In every execution, neither \<^verbatim>\<open>SafetyTask\<close> nor \<^verbatim>\<open>main\<close> performs a queue operation,
  a command validation, an inter-task communication, a locking, a cancellation or an
  error-handling action. Every call either of them makes, at any step, is a call of
  \<^verbatim>\<open>vTaskDelay\<close>, \<^verbatim>\<open>xTaskCreate\<close> or \<^verbatim>\<open>vTaskStartScheduler\<close>: a delay, a task creation
  or the start of the scheduler, and of none of the six kinds.
\<close>

theorem no_excluded_primitive_invoked:
  "\<forall>c \<in> set (emitted w (fst (SafetyTask rt n pv w)) @ emitted w' (fst (main rt' fuel w'))).
      callee c \<in> {''vTaskDelay'', ''xTaskCreate'', ''vTaskStartScheduler''} \<and>
      primitive_kind (callee c) \<in> {Some Delay, Some TaskCreation, Some SchedulerStart} \<and>
      primitive_kind (callee c) \<notin>
        Some ` {QueueOperation, CommandValidation, InterTaskCommunication, Locking,
                Cancellation, ErrorHandling}"
  by (auto simp add: emitted_SafetyTask emitted_main delay_call_def kind_simps)

text \<open>
  The theorem at two iterations of the task and a run of \<^verbatim>\<open>main\<close>: four calls are made,
  and none is of an excluded kind.
\<close>

theorem no_excluded_primitive_invoked_witness:
  "emitted boot_world (fst (SafetyTask port_1kHz 2 NULL boot_world)) @
     emitted later_world (fst (main port_1kHz 1 later_world)) =
     [Call ''vTaskDelay'' [TickV 1000], Call ''vTaskDelay'' [TickV 1000],
      Call ''xTaskCreate''
        [FunPtr ''SafetyTask'', StrLit ''SafetyTask'', IntV 1024, PtrV NULL, IntV 5, PtrV NULL],
      Call ''vTaskStartScheduler'' []] \<and>
   primitive_kind ''vTaskDelay'' \<noteq> Some QueueOperation \<and>
   primitive_kind ''xTaskCreate'' \<noteq> Some Locking \<and>
   primitive_kind ''vTaskStartScheduler'' \<noteq> Some Cancellation"
proof -
  have tr: "emitted boot_world (fst (SafetyTask port_1kHz 2 NULL boot_world)) @
      emitted later_world (fst (main port_1kHz 1 later_world)) =
      [Call ''vTaskDelay'' [TickV 1000], Call ''vTaskDelay'' [TickV 1000],
       Call ''xTaskCreate''
         [FunPtr ''SafetyTask'', StrLit ''SafetyTask'', IntV 1024, PtrV NULL, IntV 5, PtrV NULL],
       Call ''vTaskStartScheduler'' []]"
    unfolding emitted_SafetyTask emitted_main
    by (simp add: delay_call_def port_1kHz_def eval_nat_numeral)
  from no_excluded_primitive_invoked [of boot_world port_1kHz 2 NULL later_world port_1kHz 1]
  show ?thesis
    unfolding tr by (simp add: tr)
qed

subsection \<open>C4: the task is not a command validator\<close>

text \<open>
  The claim C4 as the specification words it (the task dequeues the incoming commands,
  validates each, executes the validated ones and discards and logs the rest) fails on
  the code. With a signed and an unsigned command pending, three iterations of the task
  leave both in the queue, execute nothing and log nothing, where the validator of the
  specification would have executed the first and logged the second.
\<close>

theorem SafetyTask_is_no_command_validator:
  "command_state (fst (SafetyTask port_1kHz 3 NULL boot_world)) \<noteq>
     command_state (spec_command_validator boot_world) \<and>
   command_state (fst (SafetyTask port_1kHz 3 NULL boot_world)) =
     ([\<lparr>opcode = 1, is_signed = True\<rparr>, \<lparr>opcode = 2, is_signed = False\<rparr>], [], []) \<and>
   command_state (spec_command_validator boot_world) =
     ([], [\<lparr>opcode = 1, is_signed = True\<rparr>], [\<lparr>opcode = 2, is_signed = False\<rparr>])"
  by (simp add: command_state_def SafetyTask_world spec_command_validator_def boot_world_def)

text \<open>
  C4, amended. \<^verbatim>\<open>SafetyTask\<close> is a skeleton that handles no command: after any number
  of iterations the queue, the accepted commands and the log of discarded commands are
  what they were, and the only calls made are the delays
  \<^verbatim>\<open>vTaskDelay(pdMS_TO_TICKS(1000))\<close>, one per iteration.
\<close>

theorem SafetyTask_leaves_commands_untouched:
  "queue (fst (SafetyTask rt n pv w)) = queue w \<and>
   accepted (fst (SafetyTask rt n pv w)) = accepted w \<and>
   discard_log (fst (SafetyTask rt n pv w)) = discard_log w \<and>
   emitted w (fst (SafetyTask rt n pv w)) =
     replicate n (Call ''vTaskDelay'' [TickV (pdMS_TO_TICKS rt 1000)])"
  by (simp add: SafetyTask_world emitted_def delay_call_def)

subsection \<open>C5: one task is created, before the scheduler starts\<close>

text \<open>
  C5. \<^verbatim>\<open>main\<close> creates exactly one task, with entry point \<^verbatim>\<open>SafetyTask\<close>, name
  "SafetyTask", stack depth 1024, a \<^verbatim>\<open>NULL\<close> parameter, priority 5 (and no handle
  requested), and the creation call comes before the call that starts the scheduler. No
  other task is ever created: \<^verbatim>\<open>main\<close> makes these two calls and no other, exactly one
  of them a task creation, and the task itself makes none.
\<close>

theorem main_creates_exactly_one_task:
  "emitted w (fst (main rt fuel w)) =
     [Call ''xTaskCreate''
        [FunPtr ''SafetyTask'', StrLit ''SafetyTask'', IntV 1024, PtrV NULL, IntV 5, PtrV NULL],
      Call ''vTaskStartScheduler'' []] \<and>
   filter (\<lambda>c. primitive_kind (callee c) = Some TaskCreation) (emitted w (fst (main rt fuel w))) =
     [Call ''xTaskCreate''
        [FunPtr ''SafetyTask'', StrLit ''SafetyTask'', IntV 1024, PtrV NULL, IntV 5, PtrV NULL]] \<and>
   filter (\<lambda>c. primitive_kind (callee c) = Some TaskCreation)
     (emitted w' (fst (SafetyTask rt' n pv w'))) = []"
  by (simp add: emitted_main emitted_SafetyTask delay_call_def kind_simps)

subsection \<open>C6: the delay period is constant\<close>

text \<open>
  C6. \<^verbatim>\<open>SafetyTask\<close> cooperates with the scheduler through a period delay: \<open>n\<close> iterations
  make \<open>n\<close> calls, and each of them is \<^verbatim>\<open>vTaskDelay\<close> with the same argument, the tick
  count \<^verbatim>\<open>pdMS_TO_TICKS(1000)\<close>.
\<close>

theorem SafetyTask_delay_period_constant:
  "length (emitted w (fst (SafetyTask rt n pv w))) = n \<and>
   (\<forall>c \<in> set (emitted w (fst (SafetyTask rt n pv w))).
      c = Call ''vTaskDelay'' [TickV (pdMS_TO_TICKS rt 1000)])"
  by (simp add: emitted_SafetyTask delay_call_def)

text \<open>
  The theorem at three iterations on the 1 kHz port: the first and the last call delay
  for 1000 ticks.
\<close>

theorem SafetyTask_delay_period_constant_witness:
  "length (emitted later_world (fst (SafetyTask port_1kHz 3 NULL later_world))) = 3 \<and>
   emitted later_world (fst (SafetyTask port_1kHz 3 NULL later_world)) ! 0 =
     Call ''vTaskDelay'' [TickV 1000] \<and>
   emitted later_world (fst (SafetyTask port_1kHz 3 NULL later_world)) ! 2 =
     Call ''vTaskDelay'' [TickV 1000]"
proof -
  let ?es = "emitted later_world (fst (SafetyTask port_1kHz 3 NULL later_world))"
  have ticks: "pdMS_TO_TICKS port_1kHz 1000 = 1000"
    by (simp add: port_1kHz_def)
  from SafetyTask_delay_period_constant [of later_world port_1kHz 3 NULL]
  have len: "length ?es = 3"
    and all: "\<forall>c \<in> set ?es. c = Call ''vTaskDelay'' [TickV 1000]"
    by (simp_all add: ticks)
  from len have "?es ! 0 \<in> set ?es" and "?es ! 2 \<in> set ?es"
    by simp_all
  with all len show ?thesis
    by blast
qed

subsection \<open>C7: the result of task creation is ignored\<close>

text \<open>
  C7. \<^verbatim>\<open>main\<close> neither propagates nor recovers from an error: the value returned by
  \<^verbatim>\<open>xTaskCreate\<close> is ignored. For any two results \<open>r\<close> and \<open>r'\<close> of the call, success or
  failure, \<^verbatim>\<open>main\<close> behaves the same, and its next call is \<^verbatim>\<open>vTaskStartScheduler\<close>.
\<close>

theorem main_ignores_xTaskCreate_result:
  "main (rt\<lparr>xTaskCreate_result := r\<rparr>) fuel w = main (rt\<lparr>xTaskCreate_result := r'\<rparr>) fuel w \<and>
   emitted w (fst (main (rt\<lparr>xTaskCreate_result := r\<rparr>) fuel w)) ! 1 =
     Call ''vTaskStartScheduler'' []"
proof
  show "main (rt\<lparr>xTaskCreate_result := r\<rparr>) fuel w = main (rt\<lparr>xTaskCreate_result := r'\<rparr>) fuel w"
    by (simp add: main_def xTaskCreate_def vTaskStartScheduler_def)
  show "emitted w (fst (main (rt\<lparr>xTaskCreate_result := r\<rparr>) fuel w)) ! 1 =
      Call ''vTaskStartScheduler'' []"
    by (simp add: emitted_main)
qed

subsection \<open>C8: the task does not read its parameter\<close>

text \<open>
  C8. The behaviour of \<^verbatim>\<open>SafetyTask\<close> does not depend on \<^verbatim>\<open>pvParameters\<close>: for any two
  argument values, \<^verbatim>\<open>NULL\<close> included, the task makes the same calls and reaches the same
  world, iteration by iteration.
\<close>

theorem SafetyTask_independent_of_pvParameters:
  "SafetyTask rt n pv w = SafetyTask rt n pv' w \<and> SafetyTask rt n pv w = SafetyTask rt n NULL w"
proof -
  have "SafetyTask rt n p w = SafetyTask rt n p' w" for p p'
    by (induction n arbitrary: w) simp_all
  then show ?thesis
    by blast
qed

subsection \<open>C9: main never returns\<close>

text \<open>
  C9. \<^verbatim>\<open>main\<close> never returns. On every port, and in particular on one whose
  \<^verbatim>\<open>vTaskStartScheduler\<close> returns, \<^verbatim>\<open>main\<close> has not returned after any number of
  iterations of its final loop; the statement \<^verbatim>\<open>return 0\<close> is never reached.
\<close>

theorem main_never_returns:
  "snd (main rt fuel w) = None \<and>
   snd (main (rt\<lparr>scheduler_returns := True\<rparr>) fuel w) = None \<and>
   snd (main rt fuel w) \<noteq> Some 0"
  by (simp add: main_running)

subsection \<open>C10: the program writes nothing\<close>

text \<open>
  C10. The program produces no output. Neither \<^verbatim>\<open>main\<close> nor \<^verbatim>\<open>SafetyTask\<close> calls a
  function of stdio, and the output stream after any run of either is the output stream
  before it.
\<close>

theorem program_produces_no_output:
  "stdout (fst (main rt fuel w)) = stdout w \<and>
   stdout (fst (SafetyTask rt' n pv w')) = stdout w' \<and>
   (\<forall>c \<in> set (emitted w (fst (main rt fuel w)) @ emitted w' (fst (SafetyTask rt' n pv w'))).
      primitive_kind (callee c) \<noteq> Some StdioFunction)"
proof -
  have "stdout (fst (main rt fuel w)) = stdout w"
    by (simp add: main_world)
  moreover have "stdout (fst (SafetyTask rt' n pv w')) = stdout w'"
    by (simp add: SafetyTask_world)
  moreover have "\<forall>c \<in> set (emitted w (fst (main rt fuel w))).
      primitive_kind (callee c) \<noteq> Some StdioFunction"
    by (simp add: emitted_main kind_simps)
  moreover have "\<forall>c \<in> set (emitted w' (fst (SafetyTask rt' n pv w'))).
      primitive_kind (callee c) \<noteq> Some StdioFunction"
    by (simp add: emitted_SafetyTask delay_call_def kind_simps)
  ultimately show ?thesis
    by auto
qed

text \<open>
  The theorem at a boot world with an empty output stream: the stream is empty after
  \<^verbatim>\<open>main\<close> and after four iterations of the task, and the first call of \<^verbatim>\<open>main\<close> is
  not a stdio call.
\<close>

theorem program_produces_no_output_witness:
  "stdout boot_world = [] \<and>
   stdout (fst (main port_1kHz 4 boot_world)) = [] \<and>
   stdout (fst (SafetyTask port_1kHz 4 NULL boot_world)) = [] \<and>
   emitted boot_world (fst (main port_1kHz 4 boot_world)) ! 0 =
     Call ''xTaskCreate''
       [FunPtr ''SafetyTask'', StrLit ''SafetyTask'', IntV 1024, PtrV NULL, IntV 5, PtrV NULL] \<and>
   primitive_kind ''xTaskCreate'' \<noteq> Some StdioFunction"
proof -
  let ?m = "emitted boot_world (fst (main port_1kHz 4 boot_world))"
  let ?t = "emitted boot_world (fst (SafetyTask port_1kHz 4 NULL boot_world))"
  have out: "stdout boot_world = []"
    by (simp add: boot_world_def)
  have e0: "?m ! 0 =
     Call ''xTaskCreate''
       [FunPtr ''SafetyTask'', StrLit ''SafetyTask'', IntV 1024, PtrV NULL, IntV 5, PtrV NULL]"
    by (simp add: emitted_main)
  have mem: "?m ! 0 \<in> set (?m @ ?t)"
    by (simp add: emitted_main)
  from program_produces_no_output [of port_1kHz 4 boot_world port_1kHz 4 NULL boot_world]
  have a: "stdout (fst (main port_1kHz 4 boot_world)) = stdout boot_world"
    and b: "stdout (fst (SafetyTask port_1kHz 4 NULL boot_world)) = stdout boot_world"
    and c: "\<forall>c \<in> set (?m @ ?t). primitive_kind (callee c) \<noteq> Some StdioFunction"
    by simp_all
  from c mem have "primitive_kind (callee (?m ! 0)) \<noteq> Some StdioFunction"
    by (rule bspec)
  then have "primitive_kind ''xTaskCreate'' \<noteq> Some StdioFunction"
    by (simp add: e0)
  with a b out e0 show ?thesis
    by simp
qed

end
